theory Spec2Isabelle
  imports Main
begin

section \<open>JavaScript values\<close>

text \<open>
  The adapter moves JSON around and never computes with it, so a JavaScript value is
  modelled by what the code can observe of it:
  \<^item> a string is a list of code units, restricted to the code units below 256
    (one \<open>char\<close> each);
  \<^item> a number is given by its canonical text, the one \<open>Number.prototype.toString\<close>
    yields (\<open>5\<close>, \<open>1.5\<close>, \<open>1e+21\<close>, \<open>NaN\<close>); negative zero has the text \<open>0\<close>.
    Floating point arithmetic is never performed by the code;
  \<^item> an object is the list of its own enumerable string-keyed properties in the order
    \<open>Object.entries\<close> yields them, which for keys that are not array indices is the
    insertion order. Keys are distinct.
  \<open>JUndefined\<close> is \<open>undefined\<close>; the values \<open>JSON.parse\<close> returns never contain it.
\<close>

datatype jsval =
    JUndefined
  | JNull
  | JBool bool
  | JNum string
  | JStr string
  | JArr "jsval list"
  | JObj "(string \<times> jsval) list"

text \<open>What a \<open>throw\<close> carries: an \<open>Error\<close> instance with its name and message, or any
  other value. \<open>error instanceof Error\<close> is \<open>is_Error\<close>.\<close>

datatype thrown = ErrorObj string string | NonError jsval

fun is_Error :: "thrown \<Rightarrow> bool" where
  "is_Error (ErrorObj n m) = True"
| "is_Error (NonError v) = False"

fun error_name :: "thrown \<Rightarrow> string" where
  "error_name (ErrorObj n m) = n"
| "error_name (NonError v) = []"

text \<open>An awaited computation returns, throws, or never settles.\<close>

datatype 'a outcome = Returns 'a | Throws thrown | Pending

subsection \<open>Decimal numerals\<close>

fun show_nat :: "nat \<Rightarrow> string" where
  "show_nat n =
     (if n < 10 then [''0123456789'' ! n]
      else show_nat (n div 10) @ [''0123456789'' ! (n mod 10)])"

declare show_nat.simps [simp del]

subsection \<open>Conversions\<close>

text \<open>\<open>intercalate sep xs\<close> is \<open>xs.join(sep)\<close> on strings.\<close>

fun intercalate :: "string \<Rightarrow> string list \<Rightarrow> string" where
  "intercalate sep [] = []"
| "intercalate sep [x] = x"
| "intercalate sep (x # y # ys) = x @ sep @ intercalate sep (y # ys)"

text \<open>\<open>String(v)\<close>, which is also what a template literal \<open>`${v}`\<close> inserts: an array
  joins its elements with commas, \<open>null\<close> and \<open>undefined\<close> elements giving the empty
  string; a plain object gives \<open>[object Object]\<close>.\<close>

fun to_String :: "jsval \<Rightarrow> string" where
  "to_String JUndefined = ''undefined''"
| "to_String JNull = ''null''"
| "to_String (JBool b) = (if b then ''true'' else ''false'')"
| "to_String (JNum t) = t"
| "to_String (JStr s) = s"
| "to_String (JArr xs) =
     intercalate '',''
       (map (\<lambda>x. if x = JUndefined \<or> x = JNull then [] else to_String x) xs)"
| "to_String (JObj kvs) = ''[object Object]''"

text \<open>Truthiness, as \<open>if (v)\<close>, \<open>v || w\<close> and \<open>v ? a : b\<close> test it.\<close>

fun truthy :: "jsval \<Rightarrow> bool" where
  "truthy JUndefined = False"
| "truthy JNull = False"
| "truthy (JBool b) = b"
| "truthy (JNum t) = (t \<noteq> ''0'' \<and> t \<noteq> ''NaN'')"
| "truthy (JStr s) = (s \<noteq> [])"
| "truthy (JArr xs) = True"
| "truthy (JObj kvs) = True"

definition js_or :: "jsval \<Rightarrow> jsval \<Rightarrow> jsval" where
  "js_or a b = (if truthy a then a else b)"

text \<open>Reading an own property of an object; an absent key reads as \<open>undefined\<close>.\<close>

fun lookup :: "(string \<times> jsval) list \<Rightarrow> string \<Rightarrow> jsval" where
  "lookup [] k = JUndefined"
| "lookup ((k', v) # kvs) k = (if k' = k then v else lookup kvs k)"

text \<open>\<open>v.k\<close> for a value that is neither \<open>null\<close> nor \<open>undefined\<close>. The code reads only
  the keys \<open>method\<close>, \<open>id\<close>, \<open>params\<close>, \<open>name\<close>, \<open>arguments\<close>, \<open>args\<close>, \<open>type\<close>,
  \<open>jsonrpc\<close>, \<open>mint\<close>, \<open>event_ticker\<close> and \<open>market_ticker\<close> this way; none of them is
  inherited from a prototype, an index or \<open>length\<close>, so on a primitive or an array
  they read as \<open>undefined\<close>.\<close>

fun jget :: "jsval \<Rightarrow> string \<Rightarrow> jsval" where
  "jget (JObj kvs) k = lookup kvs k"
| "jget v k = JUndefined"

text \<open>\<open>v.k\<close> in general: reading a property of \<open>null\<close> or \<open>undefined\<close> throws a
  \<open>TypeError\<close> (the message is the engine's; V8's wording is used).\<close>

definition get_prop :: "jsval \<Rightarrow> string \<Rightarrow> thrown + jsval" where
  "get_prop v k =
     (if v = JUndefined \<or> v = JNull
      then Inl (ErrorObj ''TypeError''
             (''Cannot read properties of '' @ to_String v @ '' (reading '' @ [CHR 0x27] @ k @ [CHR 0x27] @ '')''))
      else Inr (jget v k))"

text \<open>\<open>Object.entries(v)\<close> for a value that is neither \<open>null\<close> nor \<open>undefined\<close>: the
  properties of an object, the indexed elements of an array, the indexed code units of
  a string, nothing for a number or a boolean.\<close>

fun indexed :: "nat \<Rightarrow> jsval list \<Rightarrow> (string \<times> jsval) list" where
  "indexed i [] = []"
| "indexed i (x # xs) = (show_nat i, x) # indexed (Suc i) xs"

fun entries :: "jsval \<Rightarrow> (string \<times> jsval) list" where
  "entries (JObj kvs) = kvs"
| "entries (JArr xs) = indexed 0 xs"
| "entries (JStr s) = indexed 0 (map (\<lambda>c. JStr [c]) s)"
| "entries v = []"


subsection \<open>JSON.stringify\<close>

definition hex_lower :: "nat \<Rightarrow> char" where
  "hex_lower n = ''0123456789abcdef'' ! n"

text \<open>\<open>QuoteJSONString\<close>: the quote, the backslash and the code units below 0x20 are
  escaped, everything else is copied.\<close>

definition json_escape :: "char \<Rightarrow> string" where
  "json_escape c =
     (if c = CHR 0x22 then [CHR 0x5C, CHR 0x22]
      else if c = CHR 0x5C then [CHR 0x5C, CHR 0x5C]
      else if c = CHR 0x08 then [CHR 0x5C, CHR ''b'']
      else if c = CHR 0x0C then [CHR 0x5C, CHR ''f'']
      else if c = CHR 0x0A then [CHR 0x5C, CHR ''n'']
      else if c = CHR 0x0D then [CHR 0x5C, CHR ''r'']
      else if c = CHR 0x09 then [CHR 0x5C, CHR ''t'']
      else if (of_char c :: nat) < 0x20
        then [CHR 0x5C] @ ''u00'' @ [hex_lower (of_char c div 16), hex_lower (of_char c mod 16)]
      else [c])"

definition json_quote :: "string \<Rightarrow> string" where
  "json_quote s = [CHR 0x22] @ concat (map json_escape s) @ [CHR 0x22]"

text \<open>\<open>SerializeJSONProperty\<close> with the gap \<open>gap\<close> (empty for \<open>JSON.stringify(v)\<close>, two
  spaces for \<open>JSON.stringify(v, null, 2)\<close>) at the indentation \<open>ind\<close>. \<open>None\<close> is the
  result \<open>undefined\<close>: an \<open>undefined\<close> element of an array is written \<open>null\<close>, an
  \<open>undefined\<close> property of an object is left out.\<close>

fun serialize :: "string \<Rightarrow> string \<Rightarrow> jsval \<Rightarrow> string option" where
  "serialize gap ind JUndefined = None"
| "serialize gap ind JNull = Some ''null''"
| "serialize gap ind (JBool b) = Some (if b then ''true'' else ''false'')"
| "serialize gap ind (JNum t) =
     Some (if t = ''NaN'' \<or> t = ''Infinity'' \<or> t = ''-Infinity'' then ''null'' else t)"
| "serialize gap ind (JStr s) = Some (json_quote s)"
| "serialize gap ind (JArr xs) =
     (let parts = map (\<lambda>x. case serialize gap (ind @ gap) x of None \<Rightarrow> ''null'' | Some t \<Rightarrow> t) xs
      in Some (if parts = [] then ''[]''
               else if gap = [] then ''['' @ intercalate '','' parts @ '']''
               else ''['' @ [CHR 0x0A] @ ind @ gap
                    @ intercalate ('','' @ [CHR 0x0A] @ ind @ gap) parts
                    @ [CHR 0x0A] @ ind @ '']''))"
| "serialize gap ind (JObj kvs) =
     (let parts = concat (map (\<lambda>kv. case serialize gap (ind @ gap) (snd kv) of
                                       None \<Rightarrow> []
                                     | Some t \<Rightarrow> [json_quote (fst kv) @ (if gap = [] then '':'' else '': '') @ t]) kvs)
      in Some (if parts = [] then ''{}''
               else if gap = [] then ''{'' @ intercalate '','' parts @ ''}''
               else ''{'' @ [CHR 0x0A] @ ind @ gap
                    @ intercalate ('','' @ [CHR 0x0A] @ ind @ gap) parts
                    @ [CHR 0x0A] @ ind @ ''}''))"

definition JSON_stringify :: "jsval \<Rightarrow> string option" where
  "JSON_stringify v = serialize [] [] v"

definition JSON_stringify2 :: "jsval \<Rightarrow> string option" where
  "JSON_stringify2 v = serialize ''  '' [] v"

text \<open>The value of a property initialised with \<open>JSON.stringify(v, null, 2)\<close>.\<close>

definition stringify2_val :: "jsval \<Rightarrow> jsval" where
  "stringify2_val v = (case JSON_stringify2 v of None \<Rightarrow> JUndefined | Some t \<Rightarrow> JStr t)"


section \<open>The platform's URL and URLSearchParams\<close>

text \<open>
  \<open>new URL(...)\<close>, \<open>url.pathname\<close>, \<open>url.search\<close>, \<open>url.searchParams.append\<close> and
  \<open>url.toString()\<close> follow the WHATWG URL standard. The model covers what the clients
  use: an absolute \<open>https\<close> URL whose scheme and host are already canonical (the base
  origins of the repository are), followed by anything. The entries of a
  \<open>URLSearchParams\<close> list are kept as UTF-8 byte strings.
\<close>

definition hex_upper :: "nat \<Rightarrow> char" where
  "hex_upper n = ''0123456789ABCDEF'' ! n"

definition pct :: "nat \<Rightarrow> string" where
  "pct b = [CHR ''%'', hex_upper (b div 16), hex_upper (b mod 16)]"

text \<open>The UTF-8 bytes of a code unit below 256.\<close>

definition utf8_bytes :: "char \<Rightarrow> nat list" where
  "utf8_bytes c =
     (let n = of_char c :: nat
      in if n < 0x80 then [n] else [0xC0 + n div 64, 0x80 + n mod 64])"

definition utf8 :: "string \<Rightarrow> string" where
  "utf8 s = concat (map (\<lambda>c. map char_of (utf8_bytes c)) s)"

text \<open>The percent-encode sets of the standard (the one of paths with \<open>^\<close>, as the
  standard has it now). Every set contains the C0 controls and all code points above
  \<open>~\<close>.\<close>

definition c0_control_set :: "char \<Rightarrow> bool" where
  "c0_control_set c = ((of_char c :: nat) \<le> 0x1F \<or> (of_char c :: nat) > 0x7E)"

definition fragment_set :: "char \<Rightarrow> bool" where
  "fragment_set c = (c0_control_set c \<or> c \<in> set [CHR '' '', CHR 0x22, CHR ''<'', CHR ''>'', CHR ''`''])"

definition query_set :: "char \<Rightarrow> bool" where
  "query_set c = (c0_control_set c \<or> c \<in> set [CHR '' '', CHR 0x22, CHR ''#'', CHR ''<'', CHR ''>''])"

definition special_query_set :: "char \<Rightarrow> bool" where
  "special_query_set c = (query_set c \<or> c = CHR 0x27)"

definition path_set :: "char \<Rightarrow> bool" where
  "path_set c = (query_set c \<or> c \<in> set [CHR ''?'', CHR ''^'', CHR ''`'', CHR ''{'', CHR ''}''])"

definition percent_encode :: "(char \<Rightarrow> bool) \<Rightarrow> string \<Rightarrow> string" where
  "percent_encode in_set s =
     concat (map (\<lambda>c. if in_set c then concat (map pct (utf8_bytes c)) else [c]) s)"

text \<open>Before parsing, trailing C0 controls and spaces are stripped and every tab and
  newline is removed.\<close>

definition strip_trailing :: "string \<Rightarrow> string" where
  "strip_trailing s = rev (dropWhile (\<lambda>c. (of_char c :: nat) \<le> 0x20) (rev s))"

definition remove_tab_newline :: "string \<Rightarrow> string" where
  "remove_tab_newline s = filter (\<lambda>c. c \<notin> set [CHR 0x09, CHR 0x0A, CHR 0x0D]) s"

definition split_at :: "char \<Rightarrow> string \<Rightarrow> string \<times> string option" where
  "split_at d s =
     (takeWhile (\<lambda>c. c \<noteq> d) s,
      case dropWhile (\<lambda>c. c \<noteq> d) s of [] \<Rightarrow> None | c # r \<Rightarrow> Some r)"

fun split_on :: "(char \<Rightarrow> bool) \<Rightarrow> string \<Rightarrow> string list" where
  "split_on p [] = [[]]"
| "split_on p (c # cs) =
     (if p c then [] # split_on p cs
      else (case split_on p cs of [] \<Rightarrow> [[c]] | s # ss \<Rightarrow> (c # s) # ss))"

definition is_slash :: "char \<Rightarrow> bool" where
  "is_slash c = (c = CHR ''/'' \<or> c = CHR 0x5C)"

definition single_dot :: "string \<Rightarrow> bool" where
  "single_dot s = (s \<in> set [''.'', ''%2e'', ''%2E''])"

definition double_dot :: "string \<Rightarrow> bool" where
  "double_dot s =
     (s \<in> set [''..'', ''.%2e'', ''.%2E'', ''%2e.'', ''%2E.'',
               ''%2e%2e'', ''%2e%2E'', ''%2E%2e'', ''%2E%2E''])"

text \<open>The path state of the parser, one percent-encoded segment at a time: a double-dot
  segment removes the last segment of the path so far, a single-dot segment is dropped,
  and either leaves an empty segment behind when it is the last one.\<close>

fun path_state :: "string list \<Rightarrow> string list \<Rightarrow> string list" where
  "path_state acc [] = acc"
| "path_state acc [s] =
     (if double_dot s then butlast acc @ [[]]
      else if single_dot s then acc @ [[]]
      else acc @ [s])"
| "path_state acc (s # t # ts) =
     path_state (if double_dot s then butlast acc
                 else if single_dot s then acc
                 else acc @ [s]) (t # ts)"

subsection \<open>application/x-www-form-urlencoded\<close>

definition is_hex :: "char \<Rightarrow> bool" where
  "is_hex c = (c \<in> set ''0123456789abcdefABCDEF'')"

definition hex_val :: "char \<Rightarrow> nat" where
  "hex_val c =
     (let n = of_char c :: nat
      in if n \<le> 0x39 then n - 0x30 else if n \<le> 0x46 then n - 0x37 else n - 0x57)"

fun percent_decode :: "string \<Rightarrow> string" where
  "percent_decode (c # h # l # cs) =
     (if c = CHR ''%'' \<and> is_hex h \<and> is_hex l
      then char_of (16 * hex_val h + hex_val l) # percent_decode cs
      else c # percent_decode (h # l # cs))"
| "percent_decode cs = cs"

definition replacement :: string where
  "replacement = [CHR 0xEF, CHR 0xBF, CHR 0xBD]"

text \<open>UTF-8 decoding followed by UTF-8 encoding: a well-formed sequence is kept, and
  each ill-formed one becomes U+FFFD, as the standard's decoder does (\<open>need\<close> bytes
  are still needed, the next one between \<open>lo\<close> and \<open>hi\<close>; \<open>pend\<close> is the sequence
  so far).\<close>

function utf8_fix :: "nat \<Rightarrow> nat \<Rightarrow> nat \<Rightarrow> string \<Rightarrow> string \<Rightarrow> string" where
  "utf8_fix need lo hi pend [] = (if need = 0 then [] else replacement)"
| "utf8_fix need lo hi pend (c # cs) =
     (if need = 0 then
        (if (of_char c :: nat) \<le> 0x7F then c # utf8_fix 0 0x80 0xBF [] cs
         else if 0xC2 \<le> (of_char c :: nat) \<and> (of_char c :: nat) \<le> 0xDF
           then utf8_fix 1 0x80 0xBF [c] cs
         else if 0xE0 \<le> (of_char c :: nat) \<and> (of_char c :: nat) \<le> 0xEF
           then utf8_fix 2 (if c = CHR 0xE0 then 0xA0 else 0x80)
                           (if c = CHR 0xED then 0x9F else 0xBF) [c] cs
         else if 0xF0 \<le> (of_char c :: nat) \<and> (of_char c :: nat) \<le> 0xF4
           then utf8_fix 3 (if c = CHR 0xF0 then 0x90 else 0x80)
                           (if c = CHR 0xF4 then 0x8F else 0xBF) [c] cs
         else replacement @ utf8_fix 0 0x80 0xBF [] cs)
      else if lo \<le> (of_char c :: nat) \<and> (of_char c :: nat) \<le> hi then
        (if need = 1 then pend @ [c] @ utf8_fix 0 0x80 0xBF [] cs
         else utf8_fix (need - 1) 0x80 0xBF (pend @ [c]) cs)
      else replacement @ utf8_fix 0 0x80 0xBF [] (c # cs))"
  by pat_completeness auto
termination
  by (relation "measure (\<lambda>(need, lo, hi, pend, cs). 2 * length cs + (if need = 0 then 0 else 1))") auto

definition form_decode :: "string \<Rightarrow> string" where
  "form_decode s =
     utf8_fix 0 0x80 0xBF [] (percent_decode (map (\<lambda>c. if c = CHR ''+'' then CHR '' '' else c) s))"

text \<open>The parser: the sequences between \<open>&\<close>, the empty ones skipped, each split at its
  first \<open>=\<close>.\<close>

definition form_parse :: "string \<Rightarrow> (string \<times> string) list" where
  "form_parse q =
     map (\<lambda>sq. (form_decode (fst (split_at (CHR ''='') sq)),
                 form_decode (case snd (split_at (CHR ''='') sq) of None \<Rightarrow> [] | Some v \<Rightarrow> v)))
       (filter (\<lambda>sq. sq \<noteq> []) (split_on (\<lambda>c. c = CHR ''&'') q))"

definition form_safe :: "char \<Rightarrow> bool" where
  "form_safe c =
     (c \<in> set ''abcdefghijklmnopqrstuvwxyzABCDEFGHIJKLMNOPQRSTUVWXYZ0123456789*-._'')"

definition form_encode :: "string \<Rightarrow> string" where
  "form_encode bs =
     concat (map (\<lambda>c. if form_safe c then [c]
                       else if c = CHR '' '' then ''+''
                       else pct (of_char c)) bs)"

definition form_serialize :: "(string \<times> string) list \<Rightarrow> string" where
  "form_serialize l =
     intercalate ''&'' (map (\<lambda>kv. form_encode (fst kv) @ ''='' @ form_encode (snd kv)) l)"

subsection \<open>The URL object\<close>

record url =
  origin :: string
  pathname :: string
  query :: "string option"
  fragment :: "string option"
  params :: "(string \<times> string) list"

text \<open>Parsing from the path on: \<open>tail\<close> is what follows the host. The fragment starts
  at the first \<open>#\<close>, the query at the first \<open>?\<close> before it.\<close>

definition parse_tail :: "string \<Rightarrow> string \<Rightarrow> url" where
  "parse_tail org tail =
     (let t = remove_tab_newline (strip_trailing tail);
          front = fst (split_at (CHR ''#'') t);
          rawpath = fst (split_at (CHR ''?'') front);
          segs = split_on is_slash (case rawpath of [] \<Rightarrow> [] | c # r \<Rightarrow> if is_slash c then r else c # r);
          q = map_option (percent_encode special_query_set) (snd (split_at (CHR ''?'') front))
      in \<lparr> origin = org,
           pathname = concat (map (\<lambda>sg. CHR ''/'' # sg) (path_state [] (map (percent_encode path_set) segs))),
           query = q,
           fragment = map_option (percent_encode fragment_set) (snd (split_at (CHR ''#'') t)),
           params = (case q of None \<Rightarrow> [] | Some qs \<Rightarrow> form_parse qs) \<rparr>)"

text \<open>\<open>new URL(s)\<close> for \<open>s\<close> of the form \<open>https://host\<close> followed by a tail that is
  empty or starts with a slash, a backslash, \<open>?\<close> or \<open>#\<close>: the host ends there.\<close>

definition host_end :: "char \<Rightarrow> bool" where
  "host_end c = (c \<in> set [CHR ''/'', CHR 0x5C, CHR ''?'', CHR ''#''])"

definition new_URL :: "string \<Rightarrow> url" where
  "new_URL s =
     parse_tail (take 8 s @ takeWhile (\<lambda>c. \<not> host_end c) (drop 8 s))
                (dropWhile (\<lambda>c. \<not> host_end c) (drop 8 s))"

text \<open>\<open>new URL(path, base)\<close> for a \<open>path\<close> that starts with a single \<open>/\<close>: the origin
  is the base's.\<close>

definition new_URL_rel :: "string \<Rightarrow> string \<Rightarrow> url" where
  "new_URL_rel path base = parse_tail (origin (new_URL base)) path"

definition url_search :: "url \<Rightarrow> string" where
  "url_search u = (case query u of None \<Rightarrow> [] | Some q \<Rightarrow> if q = [] then [] else CHR ''?'' # q)"

definition url_toString :: "url \<Rightarrow> string" where
  "url_toString u =
     origin u @ pathname u
     @ (case query u of None \<Rightarrow> [] | Some q \<Rightarrow> CHR ''?'' # q)
     @ (case fragment u of None \<Rightarrow> [] | Some f \<Rightarrow> CHR ''#'' # f)"

text \<open>\<open>url.searchParams.append(k, v)\<close>: the pair joins the list and the query becomes
  the serialisation of the whole list.\<close>

definition searchParams_append :: "url \<Rightarrow> string \<Rightarrow> string \<Rightarrow> url" where
  "searchParams_append u k v =
     (let l = params u @ [(utf8 k, utf8 v)]
      in u\<lparr> params := l,
            query := (if form_serialize l = [] then None else Some (form_serialize l)) \<rparr>)"


section \<open>The outbound HTTP client of the stdio server (\<open>DFlowAPIClient\<close>)\<close>

definition BASE_URL :: string where
  "BASE_URL = ''https://prediction-markets-api.dflow.net''"

definition DEFAULT_TIMEOUT :: nat where
  "DEFAULT_TIMEOUT = 30000"

record client =
  baseUrl :: string
  timeout :: nat

text \<open>The constructor removes one trailing slash from the base URL.\<close>

definition new_client :: "string \<Rightarrow> nat \<Rightarrow> client" where
  "new_client b ms =
     \<lparr> baseUrl = (if b \<noteq> [] \<and> last b = CHR ''/'' then butlast b else b), timeout = ms \<rparr>"

definition apiClient :: client where
  "apiClient = new_client BASE_URL DEFAULT_TIMEOUT"

definition makeUrl :: "client \<Rightarrow> string \<Rightarrow> string" where
  "makeUrl cl path =
     baseUrl cl @ (case path of [] \<Rightarrow> CHR ''/'' # path
                   | c # r \<Rightarrow> if c = CHR ''/'' then path else CHR ''/'' # path)"

subsection \<open>The upstream, as \<open>fetch\<close> sees it\<close>

record http_request =
  req_method :: string
  req_url :: string
  req_headers :: "(string \<times> string) list"
  req_body :: "string option"

text \<open>A response: its status, and what awaiting \<open>response.text()\<close> and
  \<open>response.json()\<close> comes to (a body that never arrives leaves them pending).\<close>

record response =
  status :: nat
  text_outcome :: "string outcome"
  json_outcome :: "jsval outcome"

definition ok :: "response \<Rightarrow> bool" where
  "ok r = (200 \<le> status r \<and> status r \<le> 299)"

text \<open>What the network does with a request when nobody cancels it: it answers after
  some milliseconds, fails after some milliseconds, or never settles.\<close>

datatype fetch_behaviour = Responds nat response | Rejects nat thrown | Never

type_synonym upstream = "http_request \<Rightarrow> fetch_behaviour"


definition abort_error :: thrown where
  "abort_error = ErrorObj ''AbortError'' ''The operation was aborted.''"

text \<open>\<open>fetch\<close> with the signal of an \<open>AbortController\<close> whose \<open>abort()\<close> a timer calls
  after \<open>ms\<close> milliseconds: a request still pending then is rejected with the
  \<open>AbortError\<close>.\<close>

definition fetch_with_abort :: "nat \<Rightarrow> fetch_behaviour \<Rightarrow> thrown + response" where
  "fetch_with_abort ms fb =
     (case fb of
        Responds t r \<Rightarrow> if t \<le> ms then Inr r else Inl abort_error
      | Rejects t e \<Rightarrow> if t \<le> ms then Inl e else Inl abort_error
      | Never \<Rightarrow> Inl abort_error)"

text \<open>The \<open>try\<close> block of \<open>request\<close>. The timer is cleared once \<open>fetch\<close> has settled,
  so nothing bounds the reading of the body.\<close>

definition request_try :: "client \<Rightarrow> fetch_behaviour \<Rightarrow> jsval outcome" where
  "request_try cl fb =
     (case fetch_with_abort (timeout cl) fb of
        Inl e \<Rightarrow> Throws e
      | Inr r \<Rightarrow>
          if \<not> ok r then
            (case text_outcome r of
               Throws e \<Rightarrow> Throws e
             | Returns t \<Rightarrow> Throws (ErrorObj ''Error'' (''HTTP '' @ show_nat (status r) @ '': '' @ t))
             | Pending \<Rightarrow> Pending)
          else json_outcome r)"

text \<open>The \<open>catch\<close> block of \<open>request\<close>: what it throws for the error it caught.\<close>

definition request_catch :: "thrown \<Rightarrow> thrown" where
  "request_catch e =
     (if is_Error e \<and> error_name e = ''AbortError''
      then ErrorObj ''Error'' ''Request timeout''
      else e)"

text \<open>\<open>request(method, path, options)\<close>, where \<open>options\<close> is empty or holds a body.
  The result is the list of the \<open>fetch\<close> calls made and the outcome.\<close>

definition outbound :: "client \<Rightarrow> string \<Rightarrow> string \<Rightarrow> string option \<Rightarrow> http_request" where
  "outbound cl method path b =
     \<lparr> req_method = method, req_url = makeUrl cl path,
       req_headers = [(''Content-Type'', ''application/json'')],
       req_body = b \<rparr>"

definition request ::
  "client \<Rightarrow> upstream \<Rightarrow> string \<Rightarrow> string \<Rightarrow> string option \<Rightarrow> http_request list \<times> jsval outcome" where
  "request cl up method path b =
     ([outbound cl method path b],
      case request_try cl (up (outbound cl method path b)) of
        Throws e \<Rightarrow> Throws (request_catch e)
      | other \<Rightarrow> other)"

text \<open>The parameters \<open>get\<close> appends to the URL's search parameters, in order.\<close>

definition append_params :: "url \<Rightarrow> (string \<times> jsval) list \<Rightarrow> url" where
  "append_params u ps =
     foldl (\<lambda>u kv. if snd kv \<noteq> JUndefined \<and> snd kv \<noteq> JNull
                    then searchParams_append u (fst kv) (to_String (snd kv))
                    else u) u ps"

definition get ::
  "client \<Rightarrow> upstream \<Rightarrow> string \<Rightarrow> (string \<times> jsval) list option \<Rightarrow> http_request list \<times> jsval outcome" where
  "get cl up path ps =
     (let u0 = new_URL (makeUrl cl path);
          u = (case ps of None \<Rightarrow> u0 | Some kvs \<Rightarrow> append_params u0 kvs)
      in request cl up ''GET'' (pathname u @ url_search u) None)"

definition post ::
  "client \<Rightarrow> upstream \<Rightarrow> string \<Rightarrow> jsval \<Rightarrow> http_request list \<times> jsval outcome" where
  "post cl up path data =
     request cl up ''POST'' path (if truthy data then JSON_stringify data else None)"

subsection \<open>What the specification says a GET serialises\<close>





section \<open>The tool dispatcher of the stdio server\<close>

text \<open>The client call a \<open>case\<close> of the \<open>switch\<close> makes.\<close>

datatype client_call =
    Get string "(string \<times> jsval) list option"
  | Post string jsval

text \<open>\<open>const { k1, k2, ...rest } = toolArgs\<close>: the rest keeps every other property, in
  order.\<close>

definition rest_without :: "string list \<Rightarrow> (string \<times> jsval) list \<Rightarrow> (string \<times> jsval) list" where
  "rest_without ks kvs = filter (\<lambda>kv. fst kv \<notin> set ks) kvs"

text \<open>The \<open>switch (name)\<close> of the handler, case by case; \<open>None\<close> is the \<open>default\<close>.\<close>

definition route :: "string \<Rightarrow> (string \<times> jsval) list \<Rightarrow> client_call option" where
  "route name toolArgs =
     (if name = ''get_event'' then
        Some (Get (''/api/v1/event/'' @ to_String (lookup toolArgs ''event_id''))
                  (Some [(''withNestedMarkets'', lookup toolArgs ''withNestedMarkets'')]))
      else if name = ''get_events'' then
        Some (Get ''/api/v1/events'' (Some toolArgs))
      else if name = ''get_market'' then
        Some (Get (''/api/v1/market/'' @ to_String (lookup toolArgs ''market_id'')) None)
      else if name = ''get_market_by_mint'' then
        Some (Get (''/api/v1/market/by-mint/'' @ to_String (lookup toolArgs ''mint_address'')) None)
      else if name = ''get_markets'' then
        Some (Get ''/api/v1/markets'' (Some toolArgs))
      else if name = ''get_markets_batch'' then
        Some (Post ''/api/v1/markets/batch'' (JObj toolArgs))
      else if name = ''get_trades'' then
        Some (Get ''/api/v1/trades'' (Some toolArgs))
      else if name = ''get_trades_by_mint'' then
        Some (Get (''/api/v1/trades/by-mint/'' @ to_String (lookup toolArgs ''mint_address''))
                  (Some (rest_without [''mint_address''] toolArgs)))
      else if name = ''get_forecast_percentile_history'' then
        Some (Get (''/api/v1/event/'' @ to_String (lookup toolArgs ''series_ticker'') @ ''/''
                     @ to_String (lookup toolArgs ''event_id'') @ ''/forecast_percentile_history'')
                  (Some (rest_without [''series_ticker'', ''event_id''] toolArgs)))
      else if name = ''get_forecast_percentile_history_by_mint'' then
        Some (Get (''/api/v1/event/by-mint/'' @ to_String (lookup toolArgs ''mint_address'')
                     @ ''/forecast_percentile_history'')
                  (Some (rest_without [''mint_address''] toolArgs)))
      else if name = ''get_event_candlesticks'' then
        Some (Get (''/api/v1/event/'' @ to_String (lookup toolArgs ''ticker'') @ ''/candlesticks'')
                  (Some (rest_without [''ticker''] toolArgs)))
      else if name = ''get_market_candlesticks'' then
        Some (Get (''/api/v1/market/'' @ to_String (lookup toolArgs ''ticker'') @ ''/candlesticks'')
                  (Some (rest_without [''ticker''] toolArgs)))
      else if name = ''get_market_candlesticks_by_mint'' then
        Some (Get (''/api/v1/market/by-mint/'' @ to_String (lookup toolArgs ''mint_address'')
                     @ ''/candlesticks'')
                  (Some (rest_without [''mint_address''] toolArgs)))
      else if name = ''get_live_data'' then
        Some (Get ''/api/v1/live_data'' (Some [(''milestoneIds'', lookup toolArgs ''milestoneIds'')]))
      else if name = ''get_live_data_by_event'' then
        Some (Get (''/api/v1/live_data/by-event/'' @ to_String (lookup toolArgs ''event_ticker''))
                  (Some (rest_without [''event_ticker''] toolArgs)))
      else if name = ''get_live_data_by_mint'' then
        Some (Get (''/api/v1/live_data/by-mint/'' @ to_String (lookup toolArgs ''mint_address''))
                  (Some (rest_without [''mint_address''] toolArgs)))
      else if name = ''get_series'' then
        Some (Get ''/api/v1/series'' (Some toolArgs))
      else if name = ''get_series_by_ticker'' then
        Some (Get (''/api/v1/series/'' @ to_String (lookup toolArgs ''series_ticker'')) None)
      else if name = ''get_outcome_mints'' then
        Some (Get ''/api/v1/outcome_mints'' (Some toolArgs))
      else if name = ''filter_outcome_mints'' then
        Some (Post ''/api/v1/filter_outcome_mints'' (JObj toolArgs))
      else if name = ''get_tags_by_categories'' then
        Some (Get ''/api/v1/tags_by_categories'' None)
      else if name = ''get_filters_by_sports'' then
        Some (Get ''/api/v1/filters_by_sports'' None)
      else if name = ''search_events'' then
        Some (Get ''/api/v1/search'' (Some toolArgs))
      else None)"


definition perform :: "client \<Rightarrow> upstream \<Rightarrow> client_call \<Rightarrow> http_request list \<times> jsval outcome" where
  "perform cl up c = (case c of Get path ps \<Rightarrow> get cl up path ps | Post path data \<Rightarrow> post cl up path data)"

text \<open>\<open>new McpError(code, message)\<close> of the MCP SDK: an \<open>Error\<close> whose message is
  prefixed with the code. \<open>ErrorCode.MethodNotFound\<close> is -32601.\<close>

definition McpError :: "string \<Rightarrow> string \<Rightarrow> thrown" where
  "McpError code msg = ErrorObj ''McpError'' (''MCP error '' @ code @ '': '' @ msg)"

text \<open>The body of the \<open>try\<close> block up to the \<open>return\<close>: the calls made, and the result
  or what was thrown.\<close>

definition dispatch ::
  "client \<Rightarrow> upstream \<Rightarrow> string \<Rightarrow> (string \<times> jsval) list \<Rightarrow> http_request list \<times> jsval outcome" where
  "dispatch cl up name toolArgs =
     (case route name toolArgs of
        None \<Rightarrow> ([], Throws (McpError ''-32601'' (''Unknown tool: '' @ name)))
      | Some c \<Rightarrow> perform cl up c)"

record content_block =
  block_type :: string
  block_text :: "string option"

record call_result =
  content :: "content_block list"
  isError :: "bool option"

definition error_text :: "thrown \<Rightarrow> string" where
  "error_text e = (case e of ErrorObj n m \<Rightarrow> m | NonError v \<Rightarrow> to_String v)"

text \<open>The handler of \<open>CallToolRequestSchema\<close>. The SDK has validated the request:
  \<open>name\<close> is a string and \<open>arguments\<close> is an object or absent (\<open>None\<close>);
  \<open>or_empty args\<close> is \<open>args || {}\<close>.\<close>

definition or_empty :: "(string \<times> jsval) list option \<Rightarrow> (string \<times> jsval) list" where
  "or_empty args = (case args of None \<Rightarrow> [] | Some a \<Rightarrow> a)"

definition call_tool_handler ::
  "upstream \<Rightarrow> string \<Rightarrow> (string \<times> jsval) list option \<Rightarrow> http_request list \<times> call_result outcome" where
  "call_tool_handler up name args =
     (let toolArgs = or_empty args;
          r = dispatch apiClient up name toolArgs
      in (fst r,
          case snd r of
            Returns result \<Rightarrow>
              Returns \<lparr> content = [\<lparr> block_type = ''text'', block_text = JSON_stringify2 result \<rparr>],
                        isError = None \<rparr>
          | Throws error \<Rightarrow>
              Returns \<lparr> content = [\<lparr> block_type = ''text'',
                                     block_text = Some (''Error calling '' @ name @ '': '' @ error_text error) \<rparr>],
                        isError = Some True \<rparr>
          | Pending \<Rightarrow> Pending))"


section \<open>The serverless variants\<close>

definition API_BASE :: string where
  "API_BASE = ''https://api.llm.dflow.org''"

text \<open>\<open>apiRequest(method, path, params)\<close>, the client of the serverless functions and of
  the Deno server; \<open>params\<close> is \<open>JUndefined\<close> when the caller passes none. Every entry
  of \<open>params\<close> is appended, and \<open>fetch\<close> gets no signal. Every caller passes a
  \<open>path\<close> that starts with \<open>/api/\<close>.\<close>

definition append_all :: "url \<Rightarrow> (string \<times> jsval) list \<Rightarrow> url" where
  "append_all u ps = foldl (\<lambda>u kv. searchParams_append u (fst kv) (to_String (snd kv))) u ps"

definition apiRequest ::
  "upstream \<Rightarrow> string \<Rightarrow> string \<Rightarrow> jsval \<Rightarrow> http_request list \<times> jsval outcome" where
  "apiRequest up method path ps =
     (let u0 = new_URL_rel path API_BASE;
          u = (if truthy ps \<and> method = ''GET'' then append_all u0 (entries ps) else u0);
          rq = \<lparr> req_method = method, req_url = url_toString u,
                 req_headers = [(''Content-Type'', ''application/json'')],
                 req_body = (if method = ''POST'' \<and> truthy ps then JSON_stringify ps else None) \<rparr>
      in ([rq],
          case up rq of
            Never \<Rightarrow> Pending
          | Rejects t e \<Rightarrow> Throws e
          | Responds t r \<Rightarrow>
              if \<not> ok r then
                (case text_outcome r of
                   Throws e \<Rightarrow> Throws e
                 | Returns t \<Rightarrow> Throws (ErrorObj ''Error'' (''HTTP '' @ show_nat (status r) @ '': '' @ t))
                 | Pending \<Rightarrow> Pending)
              else json_outcome r))"

subsection \<open>Requests and responses of a function\<close>

text \<open>The body of the inbound request as \<open>JSON.parse\<close> sees it: it throws a
  \<open>SyntaxError\<close> with some message, or returns a value.\<close>

datatype inbound = Malformed string | Parsed jsval

record event =
  httpMethod :: string
  body :: inbound

text \<open>What a response carries: nothing, the value whose \<open>JSON.stringify\<close> text is the
  body, a plain text, or the HTML page of the Deno server (for the origin shown in it).\<close>

datatype payload = NoBody | Json jsval | PlainText string | HtmlPage string

record http_response =
  statusCode :: nat
  headers :: "(string \<times> string) list"
  payload :: payload

definition jsonrpc_result :: "jsval \<Rightarrow> jsval \<Rightarrow> jsval" where
  "jsonrpc_result rid res = JObj [(''jsonrpc'', JStr ''2.0''), (''id'', rid), (''result'', res)]"

definition jsonrpc_error :: "jsval \<Rightarrow> jsval \<Rightarrow> jsval" where
  "jsonrpc_error rid err = JObj [(''jsonrpc'', JStr ''2.0''), (''id'', rid), (''error'', err)]"

definition text_content :: "jsval \<Rightarrow> jsval" where
  "text_content result =
     JObj [(''content'', JArr [JObj [(''type'', JStr ''text''), (''text'', stringify2_val result)]])]"

text \<open>\<open>error.message\<close> in a \<open>catch\<close> block.\<close>

definition message_of :: "thrown \<Rightarrow> thrown + jsval" where
  "message_of e = (case e of ErrorObj n m \<Rightarrow> Inr (JStr m) | NonError v \<Rightarrow> get_prop v ''message'')"

text \<open>\<open>const { name, arguments: args } = params\<close> throws on \<open>null\<close> and \<open>undefined\<close>.\<close>

definition destructure_error :: "string \<Rightarrow> string \<Rightarrow> jsval \<Rightarrow> thrown" where
  "destructure_error k src v =
     ErrorObj ''TypeError''
       (''Cannot destructure property '' @ [CHR 0x27] @ k @ [CHR 0x27] @ '' of ''
        @ [CHR 0x27] @ src @ [CHR 0x27] @ '' as it is '' @ to_String v @ ''.'')"

subsection \<open>The Netlify function with the JSON-RPC methods (\<open>part_004\<close>)\<close>

definition int_schema :: "(string \<times> jsval) list \<Rightarrow> string \<Rightarrow> jsval" where
  "int_schema bounds d =
     JObj ([(''type'', JStr ''integer'')] @ bounds @ [(''description'', JStr d)])"

definition str_schema :: "string \<Rightarrow> jsval" where
  "str_schema d = JObj [(''type'', JStr ''string''), (''description'', JStr d)]"

definition tool :: "string \<Rightarrow> string \<Rightarrow> (string \<times> jsval) list \<Rightarrow> string list \<Rightarrow> jsval" where
  "tool n d props req =
     JObj [(''name'', JStr n), (''description'', JStr d),
           (''inputSchema'', JObj [(''type'', JStr ''object''), (''properties'', JObj props),
                                   (''required'', JArr (map JStr req))])]"

definition TOOLS :: "jsval list" where
  "TOOLS =
     [tool ''get_events'' ''Get a paginated list of all events with optional filtering and sorting.''
        [(''limit'', int_schema [(''minimum'', JNum ''0''), (''maximum'', JNum ''100'')]
                       ''Maximum number of events to return (0-100)''),
         (''cursor'', int_schema [(''minimum'', JNum ''0'')] ''Pagination cursor for fetching next page'')] [],
      tool ''get_markets'' ''Get a paginated list of markets with optional filtering.''
        [(''limit'', int_schema [(''minimum'', JNum ''0''), (''maximum'', JNum ''100'')]
                       ''Number of markets to return (0-100)''),
         (''cursor'', int_schema [(''minimum'', JNum ''0'')] ''Pagination cursor for fetching next page'')] [],
      tool ''get_trades'' ''Get a paginated list of trades across markets with optional filtering.''
        [(''limit'', int_schema [(''minimum'', JNum ''0''), (''maximum'', JNum ''100'')]
                       ''Number of trades to return (0-100)''),
         (''cursor'', str_schema ''Pagination cursor for fetching next page'')] [],
      tool ''get_market_by_mint'' ''Get market details by token mint address.''
        [(''mint'', str_schema ''Token mint address to look up market'')] [''mint''],
      tool ''get_live_data'' ''Get live data for events and markets.''
        [(''event_ticker'', str_schema ''Event ticker for live data''),
         (''market_ticker'', str_schema ''Market ticker for live data'')] []]"

definition server_name :: jsval where
  "server_name = JStr ''dflow-mcp-server''"

definition server_version :: jsval where
  "server_version = JStr ''1.0.0''"

definition server_description :: jsval where
  "server_description = JStr ''Prediction Market Metadata API server for DFlow platform''"

definition capabilities :: jsval where
  "capabilities =
     JObj [(''tools'', JObj [(''listChanged'', JBool False)]), (''prompts'', JObj []), (''resources'', JObj [])]"

definition SERVER_INFO :: "(string \<times> jsval) list" where
  "SERVER_INFO =
     [(''protocolVersion'', JStr ''2025-06-18''),
      (''capabilities'', capabilities),
      (''serverInfo'', JObj [(''name'', server_name), (''version'', server_version),
                             (''description'', server_description)])]"

definition models :: jsval where
  "models =
     JArr [JObj [(''id'', JStr ''dflow-prediction-markets''),
                 (''name'', JStr ''DFlow Prediction Markets''),
                 (''description'', JStr ''Access prediction market events, markets, trades, and live data''),
                 (''provider'', JStr ''dflow-mcp-server''),
                 (''capabilities'', JArr [JStr ''tools'', JStr ''text-generation''])]]"

text \<open>\<open>TOOLS.map(tool => ({name, description, inputSchema}))\<close>.\<close>

definition tools_mapped :: jsval where
  "tools_mapped =
     JArr (map (\<lambda>t. JObj [(''name'', jget t ''name''), (''description'', jget t ''description''),
                            (''inputSchema'', jget t ''inputSchema'')]) TOOLS)"

definition cors_preflight :: http_response where
  "cors_preflight =
     \<lparr> statusCode = 200,
       headers = [(''Access-Control-Allow-Origin'', ''*''),
                  (''Access-Control-Allow-Methods'', ''GET, POST, OPTIONS''),
                  (''Access-Control-Allow-Headers'', ''Content-Type, Authorization, x-api-key''),
                  (''Access-Control-Max-Age'', ''86400'')],
       payload = NoBody \<rparr>"

definition plain_headers :: "(string \<times> string) list" where
  "plain_headers = [(''Access-Control-Allow-Origin'', ''*''), (''Content-Type'', ''application/json'')]"

definition responseHeaders :: "(string \<times> string) list" where
  "responseHeaders =
     [(''Access-Control-Allow-Origin'', ''*''),
      (''Access-Control-Allow-Methods'', ''GET, POST, OPTIONS''),
      (''Access-Control-Allow-Headers'', ''Content-Type, Authorization, x-api-key''),
      (''Content-Type'', ''application/json''),
      (''Cache-Control'', ''no-cache'')]"

definition reply :: "jsval \<Rightarrow> http_response" where
  "reply v = \<lparr> statusCode = 200, headers = responseHeaders, payload = Json v \<rparr>"

definition available_methods :: "string list" where
  "available_methods =
     [''getModels'', ''connectMCPServer'', ''initialize'', ''tools/list'', ''tools/call'',
      ''tools/describe'', ''server/info'']"


text \<open>The \<open>switch (name)\<close> of the \<open>tools/call\<close> branch; \<open>toolArgs\<close> is truthy.\<close>

definition call_switch :: "upstream \<Rightarrow> jsval \<Rightarrow> jsval \<Rightarrow> http_request list \<times> jsval outcome" where
  "call_switch up name toolArgs =
     (if name = JStr ''get_events'' then apiRequest up ''GET'' ''/api/v1/events'' toolArgs
      else if name = JStr ''get_markets'' then apiRequest up ''GET'' ''/api/v1/markets'' toolArgs
      else if name = JStr ''get_trades'' then apiRequest up ''GET'' ''/api/v1/trades'' toolArgs
      else if name = JStr ''get_market_by_mint'' then
        apiRequest up ''GET'' (''/api/v1/markets/by-mint/'' @ to_String (jget toolArgs ''mint'')) JUndefined
      else if name = JStr ''get_live_data'' then
        apiRequest up ''GET''
          (if truthy (jget toolArgs ''event_ticker'')
             then ''/api/v1/events/live-data/'' @ to_String (jget toolArgs ''event_ticker'')
           else if truthy (jget toolArgs ''market_ticker'')
             then ''/api/v1/markets/live-data/'' @ to_String (jget toolArgs ''market_ticker'')
           else ''/api/v1/live-data'') JUndefined
      else ([], Throws (ErrorObj ''Error'' (''Unknown tool: '' @ to_String name))))"

text \<open>The \<open>tools/call\<close> branch, for a request that is neither \<open>null\<close> nor
  \<open>undefined\<close>.\<close>

definition tools_call :: "upstream \<Rightarrow> jsval \<Rightarrow> http_request list \<times> http_response outcome" where
  "tools_call up req =
     (let ps = jget req ''params'' in
      if ps = JUndefined \<or> ps = JNull
      then ([], Throws (destructure_error ''name'' ''request.params'' ps))
      else
        (let name = jget ps ''name'';
             toolArgs = js_or (jget ps ''arguments'') (JObj []);
             r = call_switch up name toolArgs
         in (fst r,
             case snd r of
               Pending \<Rightarrow> Pending
             | Returns result \<Rightarrow> Returns (reply (jsonrpc_result (jget req ''id'') (text_content result)))
             | Throws error \<Rightarrow>
                 (case message_of error of
                    Inl e \<Rightarrow> Throws e
                  | Inr m \<Rightarrow>
                      Returns (reply (jsonrpc_error (jget req ''id'')
                        (JObj [(''code'', JNum ''-32603''), (''message'', m),
                               (''data'', JObj [(''tool'', name), (''arguments'', toolArgs)])])))))))"

text \<open>\<open>TOOLS.find(t => t.name === toolName)\<close>.\<close>

definition find_tool :: "jsval \<Rightarrow> jsval" where
  "find_tool toolName = (case filter (\<lambda>t. jget t ''name'' = toolName) TOOLS of [] \<Rightarrow> JUndefined | t # ts \<Rightarrow> t)"

definition tools_describe :: "jsval \<Rightarrow> http_response outcome" where
  "tools_describe req =
     (case get_prop (jget req ''params'') ''name'' of
        Inl e \<Rightarrow> Throws e
      | Inr toolName \<Rightarrow>
          if \<not> truthy (find_tool toolName)
          then Returns (reply (jsonrpc_error (jget req ''id'')
                 (JObj [(''code'', JNum ''-32602''),
                        (''message'', JStr (''Tool not found: '' @ to_String toolName))])))
          else Returns (reply (jsonrpc_result (jget req ''id'') (find_tool toolName))))"

text \<open>What follows \<open>JSON.parse\<close> in the \<open>try\<close> block of the handler.\<close>

definition route_request :: "upstream \<Rightarrow> jsval \<Rightarrow> http_request list \<times> http_response outcome" where
  "route_request up req =
     (case get_prop req ''method'' of
        Inl e \<Rightarrow> ([], Throws e)
      | Inr m \<Rightarrow>
          if m = JStr ''getModels'' then
            ([], Returns (reply (jsonrpc_result (jget req ''id'') (JObj [(''models'', models)]))))
          else if m = JStr ''connectMCPServer'' then
            ([], Returns (reply (jsonrpc_result (jget req ''id'')
               (JObj [(''name'', server_name), (''version'', server_version),
                      (''description'', server_description), (''capabilities'', capabilities),
                      (''tools'', tools_mapped), (''connected'', JBool True),
                      (''server_url'', JStr ''https://dflow.opensvm.com/api/mcp'')]))))
          else if m = JStr ''initialize'' then
            ([], Returns (reply (jsonrpc_result (jget req ''id'') (JObj SERVER_INFO))))
          else if m = JStr ''tools/list'' then
            ([], Returns (reply (jsonrpc_result (jget req ''id'') (JObj [(''tools'', JArr TOOLS)]))))
          else if m = JStr ''tools/call'' then tools_call up req
          else if m = JStr ''tools/describe'' then ([], tools_describe req)
          else if m = JStr ''server/info'' then
            ([], Returns (reply (jsonrpc_result (jget req ''id'') (JObj SERVER_INFO))))
          else
            ([], Returns (reply (jsonrpc_error (jget req ''id'')
               (JObj [(''code'', JNum ''-32601''), (''message'', JStr ''Method not found''),
                      (''data'', JObj [(''available_methods'', JArr (map JStr available_methods))])])))))"

text \<open>The \<open>try\<close> block of the handler.\<close>

definition handler_try :: "upstream \<Rightarrow> inbound \<Rightarrow> http_request list \<times> http_response outcome" where
  "handler_try up b =
     (case b of
        Malformed msg \<Rightarrow> ([], Throws (ErrorObj ''SyntaxError'' msg))
      | Parsed req \<Rightarrow> route_request up req)"

text \<open>The outer \<open>catch\<close> block: \<open>error.message\<close> of an \<open>Error\<close> is its message.\<close>

definition parse_or_internal_error :: "jsval \<Rightarrow> http_response" where
  "parse_or_internal_error m =
     \<lparr> statusCode = 200, headers = plain_headers,
       payload = Json (jsonrpc_error JNull
         (JObj [(''code'', JNum ''-32700''), (''message'', JStr ''Parse error or internal error''),
                (''data'', m)])) \<rparr>"

text \<open>\<open>exports.handler\<close>. An exception that leaves the outer \<open>catch\<close> block leaves the
  handler.\<close>

definition handler :: "upstream \<Rightarrow> event \<Rightarrow> http_request list \<times> http_response outcome" where
  "handler up ev =
     (if httpMethod ev = ''OPTIONS'' then ([], Returns cors_preflight)
      else if httpMethod ev \<noteq> ''POST'' then
        ([], Returns \<lparr> statusCode = 405, headers = plain_headers,
                       payload = Json (jsonrpc_error JNull
                         (JObj [(''code'', JNum ''-32600''), (''message'', JStr ''Method not allowed'')])) \<rparr>)
      else
        (let r = handler_try up (body ev)
         in (fst r,
             case snd r of
               Throws error \<Rightarrow>
                 (case message_of error of
                    Inl e \<Rightarrow> Throws e
                  | Inr m \<Rightarrow> Returns (parse_or_internal_error m))
             | other \<Rightarrow> other)))"


subsection \<open>The Deno server (\<open>part_003\<close>)\<close>









subsection \<open>The Netlify function in the Claude Desktop format (\<open>part_005\<close>)\<close>












subsection \<open>Reading a response\<close>






section \<open>Facts about the URL model and the client\<close>



















lemma makeUrl_apiClient: "makeUrl apiClient (CHR ''/'' # r) = BASE_URL @ CHR ''/'' # r"
  by (simp add: makeUrl_def apiClient_def new_client_def BASE_URL_def)




text \<open>The timer bounds the fetch only: a response whose headers arrive in time and whose
  body never does leaves the request pending.\<close>

lemma body_read_is_not_bounded:
  "snd (request cl (\<lambda>rq. Responds 0 \<lparr> status = 200, text_outcome = Pending, json_outcome = Pending \<rparr>) m p b)
     = Pending"
  by (simp add: request_def request_try_def fetch_with_abort_def ok_def)



lemma get_event_url:
  "(let u = append_params (new_URL (makeUrl apiClient ''/api/v1/event/US-PRESIDENT-2024''))
              [(''withNestedMarkets'', JBool True)]
    in makeUrl apiClient (pathname u @ url_search u))
   = ''https://prediction-markets-api.dflow.net/api/v1/event/US-PRESIDENT-2024?withNestedMarkets=true''"
proof -
  have 1: "makeUrl apiClient ''/api/v1/event/US-PRESIDENT-2024''
      = ''https://prediction-markets-api.dflow.net/api/v1/event/US-PRESIDENT-2024''"
    by (simp add: makeUrl_apiClient BASE_URL_def)
  have 2: "new_URL ''https://prediction-markets-api.dflow.net/api/v1/event/US-PRESIDENT-2024''
      = \<lparr> origin = ''https://prediction-markets-api.dflow.net'',
            pathname = ''/api/v1/event/US-PRESIDENT-2024'', query = None, fragment = None,
            params = [] \<rparr>"
    by code_simp
  have 3: "append_params \<lparr> origin = ''https://prediction-markets-api.dflow.net'',
            pathname = ''/api/v1/event/US-PRESIDENT-2024'', query = None, fragment = None,
            params = [] \<rparr> [(''withNestedMarkets'', JBool True)]
      = \<lparr> origin = ''https://prediction-markets-api.dflow.net'',
            pathname = ''/api/v1/event/US-PRESIDENT-2024'', query = Some ''withNestedMarkets=true'',
            fragment = None, params = [(''withNestedMarkets'', ''true'')] \<rparr>"
    by code_simp
  show ?thesis
    unfolding 1 2 3 Let_def by (simp add: url_search_def makeUrl_apiClient BASE_URL_def)
qed

lemma batch_body:
  \<open>JSON_stringify (JObj [(''tickers'', JArr [JStr ''A'', JStr ''B''])]) = Some ''{"tickers":["A","B"]}''\<close>
  by code_simp



subsection \<open>Facts about the serverless variants\<close>

lemma events_null_cursor_url:
  "url_toString (append_all (new_URL_rel ''/api/v1/events'' API_BASE)
       (entries (JObj [(''limit'', JNum ''5''), (''cursor'', JNull)])))
   = ''https://api.llm.dflow.org/api/v1/events?limit=5&cursor=null''"
proof -
  have 1: "new_URL_rel ''/api/v1/events'' API_BASE
      = \<lparr> origin = ''https://api.llm.dflow.org'', pathname = ''/api/v1/events'', query = None,
            fragment = None, params = [] \<rparr>"
    by code_simp
  have 2: "append_all \<lparr> origin = ''https://api.llm.dflow.org'', pathname = ''/api/v1/events'', query = None,
            fragment = None, params = [] \<rparr> [(''limit'', JNum ''5''), (''cursor'', JNull)]
      = \<lparr> origin = ''https://api.llm.dflow.org'', pathname = ''/api/v1/events'',
            query = Some ''limit=5&cursor=null'', fragment = None,
            params = [(''limit'', ''5''), (''cursor'', ''null'')] \<rparr>"
    by code_simp
  show ?thesis unfolding 1 entries.simps 2 by (simp add: url_toString_def)
qed

lemma events_no_cursor_url_stdio:
  assumes "v = JNull \<or> v = JUndefined"
  shows "(let u = append_params (new_URL (makeUrl apiClient ''/api/v1/events''))
              [(''limit'', JNum ''5''), (''cursor'', v)]
    in makeUrl apiClient (pathname u @ url_search u))
   = ''https://prediction-markets-api.dflow.net/api/v1/events?limit=5''"
proof -
  have 1: "makeUrl apiClient ''/api/v1/events'' = ''https://prediction-markets-api.dflow.net/api/v1/events''"
    by (simp add: makeUrl_apiClient BASE_URL_def)
  have 2: "new_URL ''https://prediction-markets-api.dflow.net/api/v1/events''
      = \<lparr> origin = ''https://prediction-markets-api.dflow.net'',
            pathname = ''/api/v1/events'', query = None, fragment = None, params = [] \<rparr>"
    by code_simp
  have 3: "append_params \<lparr> origin = ''https://prediction-markets-api.dflow.net'',
            pathname = ''/api/v1/events'', query = None, fragment = None, params = [] \<rparr>
            [(''limit'', JNum ''5'')]
      = \<lparr> origin = ''https://prediction-markets-api.dflow.net'',
            pathname = ''/api/v1/events'', query = Some ''limit=5'',
            fragment = None, params = [(''limit'', ''5'')] \<rparr>"
    by code_simp
  have 4: "append_params u [(''limit'', JNum ''5''), (''cursor'', v)]
      = append_params u [(''limit'', JNum ''5'')]" for u
    using assms by (auto simp: append_params_def)
  show ?thesis
    unfolding 1 2 4 3 Let_def by (simp add: url_search_def makeUrl_apiClient BASE_URL_def)
qed












section \<open>Which GET parameters are serialised\<close>

text \<open>
  Claim C1. Every client of the repository is to leave the entries of a GET parameter
  mapping whose value is \<open>undefined\<close> or \<open>null\<close> out of the query string.
  \<open>DFlowAPIClient.get\<close> does (\<open>get_serializes_defined\<close> above: the query string is
  that of the entries with a value, in order). \<open>apiRequest\<close>, the client of the
  serverless functions, does not: the arguments \<open>{limit: 5, cursor: null}\<close> of a
  \<open>get_events\<close> call through the Netlify function are sent as
  \<open>?limit=5&cursor=null\<close>, where the stdio server sends \<open>?limit=5\<close>, as it does
  for \<open>{limit: 5, cursor: undefined}\<close>.
\<close>

theorem serverless_get_sends_null:
  "fst (handler up
         \<lparr> httpMethod = ''POST'',
           body = Parsed (JObj [(''jsonrpc'', JStr ''2.0''), (''id'', JNum ''1''),
                                (''method'', JStr ''tools/call''),
                                (''params'', JObj [(''name'', JStr ''get_events''),
                                                   (''arguments'', JObj [(''limit'', JNum ''5''),
                                                                         (''cursor'', JNull)])])]) \<rparr>)
     = [\<lparr> req_method = ''GET'',
          req_url = ''https://api.llm.dflow.org/api/v1/events?limit=5&cursor=null'',
          req_headers = [(''Content-Type'', ''application/json'')],
          req_body = None \<rparr>]
   \<and> fst (call_tool_handler up ''get_events'' (Some [(''limit'', JNum ''5''), (''cursor'', JNull)]))
     = [\<lparr> req_method = ''GET'',
          req_url = ''https://prediction-markets-api.dflow.net/api/v1/events?limit=5'',
          req_headers = [(''Content-Type'', ''application/json'')],
          req_body = None \<rparr>]
   \<and> fst (call_tool_handler up ''get_events'' (Some [(''limit'', JNum ''5''), (''cursor'', JUndefined)]))
     = [\<lparr> req_method = ''GET'',
          req_url = ''https://prediction-markets-api.dflow.net/api/v1/events?limit=5'',
          req_headers = [(''Content-Type'', ''application/json'')],
          req_body = None \<rparr>]"
proof -
  have a: "fst (apiRequest up ''GET'' ''/api/v1/events'' (JObj [(''limit'', JNum ''5''), (''cursor'', JNull)]))
      = [\<lparr> req_method = ''GET'',
          req_url = ''https://api.llm.dflow.org/api/v1/events?limit=5&cursor=null'',
          req_headers = [(''Content-Type'', ''application/json'')],
          req_body = None \<rparr>]"
    using events_null_cursor_url by (simp add: apiRequest_def Let_def)
  have 1: "fst (handler up
         \<lparr> httpMethod = ''POST'',
           body = Parsed (JObj [(''jsonrpc'', JStr ''2.0''), (''id'', JNum ''1''),
                                (''method'', JStr ''tools/call''),
                                (''params'', JObj [(''name'', JStr ''get_events''),
                                                   (''arguments'', JObj [(''limit'', JNum ''5''),
                                                                         (''cursor'', JNull)])])]) \<rparr>)
     = fst (apiRequest up ''GET'' ''/api/v1/events'' (JObj [(''limit'', JNum ''5''), (''cursor'', JNull)]))"
    by (simp add: handler_def handler_try_def route_request_def get_prop_def tools_call_def
        js_or_def call_switch_def Let_def)
  have 2: "fst (call_tool_handler up ''get_events'' (Some [(''limit'', JNum ''5''), (''cursor'', v)]))
     = [\<lparr> req_method = ''GET'',
          req_url = ''https://prediction-markets-api.dflow.net/api/v1/events?limit=5'',
          req_headers = [(''Content-Type'', ''application/json'')],
          req_body = None \<rparr>]"
    if v: "v = JNull \<or> v = JUndefined" for v
  proof -
    have r: "route ''get_events'' [(''limit'', JNum ''5''), (''cursor'', v)]
        = Some (Get ''/api/v1/events'' (Some [(''limit'', JNum ''5''), (''cursor'', v)]))"
      by (simp add: route_def)
    show ?thesis
      unfolding call_tool_handler_def or_empty_def Let_def option.case dispatch_def r
      using events_no_cursor_url_stdio [OF v]
      by (simp add: perform_def get_def request_def outbound_def Let_def)
  qed
  show ?thesis using 1 a 2 [of JNull] 2 [of JUndefined] by simp
qed

section \<open>Unknown tools\<close>



section \<open>The timeout of the client\<close>



section \<open>The scenario of \<open>get_event\<close>\<close>

text \<open>
  Claim C4. A \<open>tools/call\<close> of \<open>get_event\<close> with \<open>event_id\<close> \<open>US-PRESIDENT-2024\<close> and
  \<open>withNestedMarkets\<close> \<open>true\<close> issues exactly one outbound call, a GET of
  \<open>{base}/api/v1/event/US-PRESIDENT-2024?withNestedMarkets=true\<close>; when the upstream
  answers in time with a 2xx status and a JSON body, the result is exactly one text
  block holding \<open>JSON.stringify(body, null, 2)\<close>, without \<open>isError\<close>.
\<close>

theorem get_event_scenario:
  "fst (call_tool_handler up ''get_event''
          (Some [(''event_id'', JStr ''US-PRESIDENT-2024''), (''withNestedMarkets'', JBool True)]))
     = [\<lparr> req_method = ''GET'',
          req_url = BASE_URL @ ''/api/v1/event/US-PRESIDENT-2024?withNestedMarkets=true'',
          req_headers = [(''Content-Type'', ''application/json'')],
          req_body = None \<rparr>]
   \<and> (up \<lparr> req_method = ''GET'',
             req_url = BASE_URL @ ''/api/v1/event/US-PRESIDENT-2024?withNestedMarkets=true'',
             req_headers = [(''Content-Type'', ''application/json'')],
             req_body = None \<rparr> = Responds t r
        \<and> t \<le> DEFAULT_TIMEOUT \<and> ok r \<and> json_outcome r = Returns v
      \<longrightarrow> snd (call_tool_handler up ''get_event''
             (Some [(''event_id'', JStr ''US-PRESIDENT-2024''), (''withNestedMarkets'', JBool True)]))
           = Returns \<lparr> content = [\<lparr> block_type = ''text'', block_text = JSON_stringify2 v \<rparr>],
                       isError = None \<rparr>)"
proof -
  let ?args = "[(''event_id'', JStr ''US-PRESIDENT-2024''), (''withNestedMarkets'', JBool True)]"
  have r: "route ''get_event'' ?args
      = Some (Get ''/api/v1/event/US-PRESIDENT-2024'' (Some [(''withNestedMarkets'', JBool True)]))"
    by (simp add: route_def)
  have d: "dispatch apiClient up ''get_event'' ?args
      = ([\<lparr> req_method = ''GET'',
             req_url = BASE_URL @ ''/api/v1/event/US-PRESIDENT-2024?withNestedMarkets=true'',
             req_headers = [(''Content-Type'', ''application/json'')],
             req_body = None \<rparr>],
         case request_try apiClient (up \<lparr> req_method = ''GET'',
             req_url = BASE_URL @ ''/api/v1/event/US-PRESIDENT-2024?withNestedMarkets=true'',
             req_headers = [(''Content-Type'', ''application/json'')],
             req_body = None \<rparr>) of Throws e \<Rightarrow> Throws (request_catch e) | other \<Rightarrow> other)"
    unfolding dispatch_def r using get_event_url
    by (simp add: perform_def get_def request_def outbound_def Let_def BASE_URL_def)
  have t: "timeout apiClient = DEFAULT_TIMEOUT" by (simp add: apiClient_def new_client_def)
  show ?thesis
    unfolding call_tool_handler_def or_empty_def Let_def option.case d
    by (auto simp: request_try_def fetch_with_abort_def t)
qed

theorem get_event_scenario_witness:
  \<open>snd (call_tool_handler
         (\<lambda>rq. Responds 120 \<lparr> status = 200, text_outcome = Returns [],
                                json_outcome = Returns (JObj [(''ticker'', JStr ''US-PRESIDENT-2024'')]) \<rparr>)
         ''get_event''
         (Some [(''event_id'', JStr ''US-PRESIDENT-2024''), (''withNestedMarkets'', JBool True)]))
     = Returns \<lparr> content = [\<lparr> block_type = ''text'',
                                block_text = Some (''{'' @ [CHR 0x0A] @ ''  "ticker": "US-PRESIDENT-2024"'' @ [CHR 0x0A] @ ''}'') \<rparr>],
                 isError = None \<rparr>\<close>
proof -
  have s: \<open>JSON_stringify2 (JObj [(''ticker'', JStr ''US-PRESIDENT-2024'')])
      = Some (''{'' @ [CHR 0x0A] @ ''  "ticker": "US-PRESIDENT-2024"'' @ [CHR 0x0A] @ ''}'')\<close>
    by code_simp
  show ?thesis
    using get_event_scenario [of "\<lambda>rq. Responds 120 \<lparr> status = 200, text_outcome = Returns [],
                                json_outcome = Returns (JObj [(''ticker'', JStr ''US-PRESIDENT-2024'')]) \<rparr>"
        120 "\<lparr> status = 200, text_outcome = Returns [],
                                json_outcome = Returns (JObj [(''ticker'', JStr ''US-PRESIDENT-2024'')]) \<rparr>"
        "JObj [(''ticker'', JStr ''US-PRESIDENT-2024'')]"]
    unfolding s by (simp add: DEFAULT_TIMEOUT_def ok_def)
qed

section \<open>The scenario of \<open>get_markets_batch\<close>\<close>

text \<open>
  Claim C5. A \<open>tools/call\<close> of \<open>get_markets_batch\<close> with the tickers \<open>A\<close> and \<open>B\<close>
  issues exactly one outbound call, a POST of \<open>{base}/api/v1/markets/batch\<close> whose body
  is the JSON text of the arguments; every \<open>post\<close> sends the path as it is under the
  base URL, with no query parameter added, and the data as the JSON body.
\<close>

theorem get_markets_batch_scenario:
  \<open>fst (call_tool_handler up ''get_markets_batch'' (Some [(''tickers'', JArr [JStr ''A'', JStr ''B''])]))
     = [\<lparr> req_method = ''POST'',
          req_url = BASE_URL @ ''/api/v1/markets/batch'',
          req_headers = [(''Content-Type'', ''application/json'')],
          req_body = Some ''{"tickers":["A","B"]}'' \<rparr>]
   \<and> fst (post cl up' path data)
     = [\<lparr> req_method = ''POST'',
          req_url = makeUrl cl path,
          req_headers = [(''Content-Type'', ''application/json'')],
          req_body = (if truthy data then JSON_stringify data else None) \<rparr>]
   \<and> makeUrl cl (CHR ''/'' # rest) = baseUrl cl @ CHR ''/'' # rest\<close>
proof -
  have r: "route ''get_markets_batch'' [(''tickers'', JArr [JStr ''A'', JStr ''B''])]
      = Some (Post ''/api/v1/markets/batch'' (JObj [(''tickers'', JArr [JStr ''A'', JStr ''B''])]))"
    by (simp add: route_def)
  have 1: "fst (call_tool_handler up ''get_markets_batch'' (Some [(''tickers'', JArr [JStr ''A'', JStr ''B''])]))
      = [outbound apiClient ''POST'' ''/api/v1/markets/batch''
           (JSON_stringify (JObj [(''tickers'', JArr [JStr ''A'', JStr ''B''])]))]"
    unfolding call_tool_handler_def or_empty_def Let_def option.case dispatch_def r
    by (simp add: perform_def post_def request_def)
  have 2: "makeUrl apiClient ''/api/v1/markets/batch'' = BASE_URL @ ''/api/v1/markets/batch''"
    by (simp add: makeUrl_def apiClient_def new_client_def BASE_URL_def)
  show ?thesis
    unfolding 1 batch_body outbound_def 2
    by (simp add: post_def request_def outbound_def makeUrl_def)
qed

section \<open>Bodies that are not JSON\<close>



section \<open>Methods that are not recognised\<close>




section \<open>The id of the response\<close>




section \<open>The by-mint tools split their arguments\<close>



section \<open>The stdio handler is total\<close>



end
